theory Spec2Isabelle
  imports Main "HOL-Library.Word"
begin

section \<open>PitchMi: the pitch evaluator of \<open>app.py\<close>\<close>

text \<open>
  The program is a Flask application with one worker function,
  \<open>call_gemini_with_video\<close>, and one handler, \<open>evaluate_pitch\<close>. The model below
  follows the source line by line. Exceptions are values of a sum type, the network and
  the clock are an explicit log of events, and the remote service is a function that
  gives the outcome of the n-th outbound call.

  Python strings are modelled as HOL strings, one character per code point. The JSON
  decoder of the standard library is not part of the repository: it is the field
  \<open>loads\<close> of the environment, and every theorem holds for every decoder.
\<close>

subsection \<open>Python values and exceptions\<close>

type_synonym byte = "8 word"

text \<open>
  The values that \<open>json.loads\<close> and \<open>resp.json()\<close> produce, and that \<open>jsonify\<close>
  and \<open>requests.post(json=...)\<close> consume. A dict is an association list; a float is
  identified by its \<open>repr\<close>, which determines the double.
\<close>

datatype json =
    JNull
  | JBool bool
  | JInt int
  | JFloat string
  | JStr string
  | JArr "json list"
  | JObj "(string \<times> json) list"

text \<open>The exception classes that can occur, each with the text that \<open>str(e)\<close> gives.\<close>

datatype exn =
    RuntimeError string
  | TypeError string
  | KeyError string
  | IndexError string
  | JSONDecodeError string
  | UnboundLocalError string
  | RequestException string
  | HTTPException string
  | OSError string

fun str_exn :: "exn \<Rightarrow> string" where
  "str_exn (RuntimeError m) = m"
| "str_exn (TypeError m) = m"
| "str_exn (KeyError m) = m"
| "str_exn (IndexError m) = m"
| "str_exn (JSONDecodeError m) = m"
| "str_exn (UnboundLocalError m) = m"
| "str_exn (RequestException m) = m"
| "str_exn (HTTPException m) = m"
| "str_exn (OSError m) = m"

fun type_name :: "json \<Rightarrow> string" where
  "type_name JNull = ''NoneType''"
| "type_name (JBool b) = ''bool''"
| "type_name (JInt i) = ''int''"
| "type_name (JFloat f) = ''float''"
| "type_name (JStr s) = ''str''"
| "type_name (JArr xs) = ''list''"
| "type_name (JObj kvs) = ''dict''"

fun isinstance_dict :: "json \<Rightarrow> bool" where
  "isinstance_dict (JObj kvs) = True"
| "isinstance_dict v = False"

fun dict_get :: "(string \<times> json) list \<Rightarrow> string \<Rightarrow> json option" where
  "dict_get [] k = None"
| "dict_get ((k', v) # kvs) k = (if k' = k then Some v else dict_get kvs k)"

text \<open>
  Subscription \<open>v[k]\<close>, for the two kinds of subscript the source uses: a string key and
  a non-negative integer. A dict decoded from JSON has string keys only, so an integer is
  never one of its keys. A string indexed by an integer gives a one-character string.
\<close>

datatype subscript = Key string | Idx nat

fun digit_char :: "nat \<Rightarrow> char" where
  "digit_char n = (''0123456789'' ! n)"

fun str_nat :: "nat \<Rightarrow> string" where
  "str_nat n =
     (if n < 10 then [digit_char n] else str_nat (n div 10) @ [digit_char (n mod 10)])"

declare str_nat.simps [simp del]

definition str_int :: "int \<Rightarrow> string" where
  "str_int i = (if i < 0 then ''-'' @ str_nat (nat (- i)) else str_nat (nat i))"

definition repr_key :: "string \<Rightarrow> string" where
  "repr_key k = [CHR 0x27] @ k @ [CHR 0x27]"

fun getitem :: "json \<Rightarrow> subscript \<Rightarrow> exn + json" where
  "getitem (JObj kvs) (Key k) =
     (case dict_get kvs k of Some v \<Rightarrow> Inr v | None \<Rightarrow> Inl (KeyError (repr_key k)))"
| "getitem (JObj kvs) (Idx i) = Inl (KeyError (str_nat i))"
| "getitem (JArr xs) (Idx i) =
     (if i < length xs then Inr (xs ! i) else Inl (IndexError ''list index out of range''))"
| "getitem (JArr xs) (Key k) =
     Inl (TypeError ''list indices must be integers or slices, not str'')"
| "getitem (JStr s) (Idx i) =
     (if i < length s then Inr (JStr [s ! i])
      else Inl (IndexError ''string index out of range''))"
| "getitem (JStr s) (Key k) =
     Inl (TypeError (''string indices must be integers, not '' @ repr_key ''str''))"
| "getitem v k =
     Inl (TypeError (repr_key (type_name v) @ '' object is not subscriptable''))"

fun subscript_path :: "json \<Rightarrow> subscript list \<Rightarrow> exn + json" where
  "subscript_path v [] = Inr v"
| "subscript_path v (k # ks) =
     (case getitem v k of Inl e \<Rightarrow> Inl e | Inr v' \<Rightarrow> subscript_path v' ks)"

subsection \<open>Base64\<close>

definition b64_alphabet :: string where
  "b64_alphabet = ''ABCDEFGHIJKLMNOPQRSTUVWXYZabcdefghijklmnopqrstuvwxyz0123456789+/''"

definition b64_char :: "nat \<Rightarrow> char" where
  "b64_char n = b64_alphabet ! n"

fun b64_groups :: "nat list \<Rightarrow> string" where
  "b64_groups [] = []"
| "b64_groups [a] = [b64_char (a div 4), b64_char ((a mod 4) * 16), CHR ''='', CHR ''='']"
| "b64_groups [a, b] =
     [b64_char (a div 4), b64_char ((a mod 4) * 16 + b div 16),
      b64_char ((b mod 16) * 4), CHR ''='']"
| "b64_groups (a # b # c # rest) =
     [b64_char (a div 4), b64_char ((a mod 4) * 16 + b div 16),
      b64_char ((b mod 16) * 4 + c div 64), b64_char (c mod 64)] @ b64_groups rest"

definition b64encode :: "byte list \<Rightarrow> string" where
  "b64encode bs = b64_groups (map unat bs)"

subsection \<open>The environment, the network and the clock\<close>

text \<open>
  \<open>GEMINI_API_KEY\<close> comes from the process environment and \<open>EVAL_PROMPT\<close> is the
  fixed rubric text; \<open>loads\<close> is the JSON decoder, with \<open>Inl m\<close> for a
  \<open>JSONDecodeError\<close> whose message is \<open>m\<close>.
\<close>

record env =
  GEMINI_API_KEY :: string
  EVAL_PROMPT :: string
  loads :: "string \<Rightarrow> string + json"

definition GEMINI_MODEL :: string where
  "GEMINI_MODEL = ''gemini-2.5-flash''"

record response =
  status_code :: int
  resp_text :: string

record http_request =
  url :: string
  json_payload :: json
  timeout :: nat

text \<open>
  What one call of \<open>requests.post\<close> does: it returns a response, raises
  \<open>requests.exceptions.Timeout\<close>, or raises some other exception.
\<close>

datatype outcome = Response response | Timeout | Failure exn

type_synonym upstream = "nat \<Rightarrow> outcome"

datatype event = Post http_request | Sleep nat

type_synonym world = "event list"

fun is_post :: "event \<Rightarrow> bool" where
  "is_post (Post r) = True"
| "is_post (Sleep n) = False"

definition n_posts :: "world \<Rightarrow> nat" where
  "n_posts w = length (filter is_post w)"

definition requests_post :: "upstream \<Rightarrow> http_request \<Rightarrow> world \<Rightarrow> outcome \<times> world" where
  "requests_post up req w = (up (n_posts w), w @ [Post req])"

definition time_sleep :: "nat \<Rightarrow> world \<Rightarrow> world" where
  "time_sleep n w = w @ [Sleep n]"

subsection \<open>\<open>call_gemini_with_video\<close>\<close>

definition build_url :: "env \<Rightarrow> string" where
  "build_url e =
     ''https://generativelanguage.googleapis.com/v1beta/models/'' @
     GEMINI_MODEL @ '':generateContent?key='' @ GEMINI_API_KEY e"

definition build_payload :: "env \<Rightarrow> byte list \<Rightarrow> string \<Rightarrow> json" where
  "build_payload e video_bytes mime_type =
     (let b64_data = b64encode video_bytes in
      JObj [
        (''contents'', JArr [
           JObj [
             (''role'', JStr ''user''),
             (''parts'', JArr [
                JObj [(''text'', JStr (EVAL_PROMPT e))],
                JObj [(''inline_data'',
                   JObj [(''mime_type'', JStr mime_type), (''data'', JStr b64_data)])]])]]),
        (''generationConfig'',
           JObj [(''temperature'', JFloat ''0.2''),
                 (''responseMimeType'', JStr ''application/json'')])])"

definition build_request :: "env \<Rightarrow> byte list \<Rightarrow> string \<Rightarrow> http_request" where
  "build_request e video_bytes mime_type =
     \<lparr>url = build_url e, json_payload = build_payload e video_bytes mime_type, timeout = 300\<rparr>"

definition max_retries :: nat where
  "max_retries = 3"

text \<open>
  The \<open>for attempt in range(max_retries)\<close> loop, over the list of the attempts still to
  run. The variable \<open>resp\<close> is \<open>None\<close> while it is unbound. The loop ends by an
  exception, by \<open>break\<close>, or because the range is used up.
\<close>

datatype loop_end = Break | Exhausted

fun retry_loop ::
  "upstream \<Rightarrow> http_request \<Rightarrow> nat list \<Rightarrow> response option \<Rightarrow> world \<Rightarrow>
     (exn + loop_end \<times> response option) \<times> world" where
  "retry_loop up req [] resp w = (Inr (Exhausted, resp), w)"
| "retry_loop up req (attempt # rest) resp w =
     (case requests_post up req w of
        (Response r, w1) \<Rightarrow>
          if status_code r = 503 \<and> attempt < max_retries - 1
          then retry_loop up req rest (Some r) (time_sleep 5 w1)
          else if status_code r \<noteq> 200
          then (Inl (RuntimeError
                  (''Gemini API error '' @ str_int (status_code r) @ '': '' @
                   take 300 (resp_text r))), w1)
          else (Inr (Break, Some r), w1)
      | (Timeout, w1) \<Rightarrow>
          if attempt < max_retries - 1
          then retry_loop up req rest resp (time_sleep 5 w1)
          else (Inl (RuntimeError ''Gemini API request timed out after retries''), w1)
      | (Failure e, w1) \<Rightarrow> (Inl e, w1))"

definition resp_json :: "env \<Rightarrow> response \<Rightarrow> exn + json" where
  "resp_json e r =
     (case loads e (resp_text r) of Inl m \<Rightarrow> Inl (JSONDecodeError m) | Inr d \<Rightarrow> Inr d)"

text \<open>\<open>json.loads(text)\<close>: an argument that is not a string is a \<open>TypeError\<close>.\<close>

definition json_loads :: "env \<Rightarrow> json \<Rightarrow> exn + json" where
  "json_loads e v =
     (case v of
        JStr s \<Rightarrow> (case loads e s of Inl m \<Rightarrow> Inl (JSONDecodeError m) | Inr p \<Rightarrow> Inr p)
      | _ \<Rightarrow> Inl (TypeError
                 (''the JSON object must be str, bytes or bytearray, not '' @ type_name v)))"

definition answer_path :: "subscript list" where
  "answer_path =
     [Key ''candidates'', Idx 0, Key ''content'', Key ''parts'', Idx 0, Key ''text'']"

text \<open>The statements after the loop, from \<open>data = resp.json()\<close> to \<open>return parsed\<close>.\<close>

definition parse_answer :: "env \<Rightarrow> json \<Rightarrow> exn + json" where
  "parse_answer e answer =
     (case json_loads e answer of
        Inl (JSONDecodeError m) \<Rightarrow>
          Inl (RuntimeError (''Gemini did not return valid JSON: '' @ m))
      | Inl x \<Rightarrow> Inl x
      | Inr parsed \<Rightarrow>
          if \<not> isinstance_dict parsed
          then Inl (RuntimeError ''Gemini JSON root must be an object'')
          else Inr parsed)"

definition read_response :: "env \<Rightarrow> response \<Rightarrow> exn + json" where
  "read_response e resp =
     (case resp_json e resp of
        Inl x \<Rightarrow> Inl x
      | Inr data \<Rightarrow>
          (case subscript_path data answer_path of
             Inl x \<Rightarrow>
               Inl (RuntimeError (''Unexpected Gemini response format: '' @ str_exn x))
           | Inr answer \<Rightarrow> parse_answer e answer))"

definition call_gemini_with_video ::
  "env \<Rightarrow> upstream \<Rightarrow> byte list \<Rightarrow> string \<Rightarrow> world \<Rightarrow> (exn + json) \<times> world" where
  "call_gemini_with_video e up video_bytes mime_type w =
     (case retry_loop up (build_request e video_bytes mime_type) [0..<max_retries] None w of
        (Inl x, w') \<Rightarrow> (Inl x, w')
      | (Inr (how, None), w') \<Rightarrow>
          (Inl (UnboundLocalError
             (''cannot access local variable '' @ repr_key ''resp'' @
              '' where it is not associated with a value'')), w')
      | (Inr (how, Some resp), w') \<Rightarrow> (read_response e resp, w'))"

subsection \<open>\<open>evaluate_pitch\<close>\<close>

record file_storage =
  content :: "byte list"
  mimetype :: string

record flask_request =
  files :: "(string \<times> file_storage) list"

record http_response =
  status :: nat
  body :: json

definition evaluation_failed :: "exn \<Rightarrow> http_response" where
  "evaluation_failed x =
     \<lparr>status = 500,
      body = JObj [(''error'', JStr ''evaluation_failed''), (''message'', JStr (str_exn x))]\<rparr>"

text \<open>\<open>video_file.mimetype or "video/mp4"\<close>: the empty string is falsy.\<close>

definition mimetype_or_default :: "file_storage \<Rightarrow> string" where
  "mimetype_or_default video_file =
     (if mimetype video_file = [] then ''video/mp4'' else mimetype video_file)"

definition evaluate_pitch ::
  "env \<Rightarrow> upstream \<Rightarrow> flask_request \<Rightarrow> world \<Rightarrow> http_response \<times> world" where
  "evaluate_pitch e up request w =
     (case map_of (files request) ''video'' of
        None \<Rightarrow>
          (\<lparr>status = 400, body = JObj [(''error'', JStr ''missing 'video' file field'')]\<rparr>, w)
      | Some video_file \<Rightarrow>
          (let video_bytes = content video_file in
           if video_bytes = []
           then (\<lparr>status = 400, body = JObj [(''error'', JStr ''empty video payload'')]\<rparr>, w)
           else
             (let mime_type = mimetype_or_default video_file
              in case call_gemini_with_video e up video_bytes mime_type w of
                   (Inr result, w') \<Rightarrow> (\<lparr>status = 200, body = result\<rparr>, w')
                 | (Inl x, w') \<Rightarrow> (evaluation_failed x, w'))))"

text \<open>
  The handler once more, with the two accesses to the request that can raise: parsing the
  form data behind \<open>request.files\<close>, and \<open>video_file.read()\<close>. The first definition
  is the \<open>try\<close> block, the second adds the \<open>except Exception\<close> clause. Every value of
  type \<open>json\<close> can be serialised, so \<open>jsonify\<close> has no failing case. On a request
  that can be parsed and read, this handler is \<open>evaluate_pitch\<close> above.
\<close>

record raw_file =
  stream :: "exn + byte list"
  declared_mimetype :: string

record raw_request =
  request_files :: "exn + (string \<times> raw_file) list"

definition evaluate_pitch_try ::
  "env \<Rightarrow> upstream \<Rightarrow> raw_request \<Rightarrow> world \<Rightarrow> (exn + http_response) \<times> world" where
  "evaluate_pitch_try e up request w =
     (case request_files request of
        Inl x \<Rightarrow> (Inl x, w)
      | Inr fs \<Rightarrow>
          (case map_of fs ''video'' of
             None \<Rightarrow>
               (Inr \<lparr>status = 400,
                     body = JObj [(''error'', JStr ''missing 'video' file field'')]\<rparr>, w)
           | Some video_file \<Rightarrow>
               (case stream video_file of
                  Inl x \<Rightarrow> (Inl x, w)
                | Inr video_bytes \<Rightarrow>
                    if video_bytes = []
                    then (Inr \<lparr>status = 400,
                               body = JObj [(''error'', JStr ''empty video payload'')]\<rparr>, w)
                    else
                      (let mime_type =
                             (if declared_mimetype video_file = [] then ''video/mp4''
                              else declared_mimetype video_file)
                       in case call_gemini_with_video e up video_bytes mime_type w of
                            (Inr result, w') \<Rightarrow> (Inr \<lparr>status = 200, body = result\<rparr>, w')
                          | (Inl x, w') \<Rightarrow> (Inl x, w')))))"

definition evaluate_pitch_handler ::
  "env \<Rightarrow> upstream \<Rightarrow> raw_request \<Rightarrow> world \<Rightarrow> (exn + http_response) \<times> world" where
  "evaluate_pitch_handler e up request w =
     (case evaluate_pitch_try e up request w of
        (Inr reply, w') \<Rightarrow> (Inr reply, w')
      | (Inl x, w') \<Rightarrow> (Inr (evaluation_failed x), w'))"

definition readable :: "flask_request \<Rightarrow> raw_request" where
  "readable request =
     \<lparr>request_files = Inr (map (\<lambda>(k, f). (k, \<lparr>stream = Inr (content f),
                                                     declared_mimetype = mimetype f\<rparr>))
                                (files request))\<rparr>"

subsection \<open>Vocabulary for the statements\<close>

text \<open>
  Reading a decimal numeral back: the value of a string of digits, with an optional
  leading minus sign. It says what \<open>str_int\<close> has to produce.
\<close>

definition digit_of :: "char \<Rightarrow> nat" where
  "digit_of c = of_char c - 48"

definition is_digit :: "char \<Rightarrow> bool" where
  "is_digit c = (c \<in> set ''0123456789'')"

definition read_nat :: "string \<Rightarrow> nat" where
  "read_nat s = foldl (\<lambda>a c. 10 * a + digit_of c) 0 s"

definition read_int :: "string \<Rightarrow> int" where
  "read_int s =
     (case s of
        [] \<Rightarrow> 0
      | c # ds \<Rightarrow> if c = CHR ''-'' then - int (read_nat ds) else int (read_nat s))"

text \<open>
  The two conditions on which the loop goes on to the next attempt (when one is left):
  a response with status 503, and a timeout.
\<close>

fun retry_trigger :: "outcome \<Rightarrow> bool" where
  "retry_trigger (Response r) = (status_code r = 503)"
| "retry_trigger Timeout = True"
| "retry_trigger (Failure x) = False"

text \<open>What \<open>k\<close> retried attempts leave in the log: a call and a sleep of 5 seconds each.\<close>

definition retried :: "nat \<Rightarrow> http_request \<Rightarrow> event list" where
  "retried k req = concat (replicate k [Post req, Sleep 5])"

text \<open>
  Starting in world \<open>w\<close>, the next \<open>k\<close> calls all meet a retry trigger, and a further
  attempt is left.
\<close>

definition retried_until :: "upstream \<Rightarrow> world \<Rightarrow> nat \<Rightarrow> bool" where
  "retried_until up w k =
     (k < max_retries \<and> list_all (\<lambda>i. retry_trigger (up (n_posts w + i))) [0..<k])"




text \<open>The requests sent, in order, and the media type a request declares for the video.\<close>

fun posted :: "world \<Rightarrow> http_request list" where
  "posted [] = []"
| "posted (Post r # w) = r # posted w"
| "posted (Sleep n # w) = posted w"

definition media_tag :: "http_request \<Rightarrow> exn + json" where
  "media_tag req =
     subscript_path (json_payload req)
       [Key ''contents'', Idx 0, Key ''parts'', Idx 1, Key ''inline_data'', Key ''mime_type'']"

subsection \<open>Example inputs\<close>

text \<open>
  A decoder given by a table of JSON texts with their values, an environment that uses it,
  some uploads and some remote services. They serve to run the theorems on concrete inputs.
\<close>

definition demo_answer_text :: string where
  \<open>demo_answer_text = ''{"weighted_total": 80}''\<close>

definition demo_answer :: json where
  "demo_answer = JObj [(''weighted_total'', JInt 80)]"

definition demo_envelope_text :: string where
  \<open>demo_envelope_text =
     ''{"candidates": [{"content": {"parts": [{"text": "{'' @ [CHR 0x5C] @
     ''"weighted_total'' @ [CHR 0x5C] @ ''": 80}"}]}}]}''\<close>

definition empty_candidates_text :: string where
  \<open>empty_candidates_text = ''{"candidates": []}''\<close>

definition array_envelope_text :: string where
  \<open>array_envelope_text = ''{"candidates": [{"content": {"parts": [{"text": "[1, 2]"}]}}]}''\<close>

definition prose_envelope_text :: string where
  \<open>prose_envelope_text = ''{"candidates": [{"content": {"parts": [{"text": "well done"}]}}]}''\<close>

definition null_envelope_text :: string where
  \<open>null_envelope_text = ''{"candidates": [{"content": {"parts": [{"text": null}]}}]}''\<close>

definition envelope_of :: "json \<Rightarrow> json" where
  "envelope_of v =
     JObj [(''candidates'',
       JArr [JObj [(''content'', JObj [(''parts'', JArr [JObj [(''text'', v)]])])]])]"

definition demo_table :: "(string \<times> json) list" where
  "demo_table =
     [(demo_answer_text, demo_answer),
      (demo_envelope_text, envelope_of (JStr demo_answer_text)),
      (''[1, 2]'', JArr [JInt 1, JInt 2]),
      (empty_candidates_text, JObj [(''candidates'', JArr [])]),
      (array_envelope_text, envelope_of (JStr ''[1, 2]'')),
      (prose_envelope_text, envelope_of (JStr ''well done'')),
      (null_envelope_text, envelope_of JNull)]"

definition decode_error :: string where
  "decode_error = ''Expecting value: line 1 column 1 (char 0)''"

definition demo_loads :: "string \<Rightarrow> string + json" where
  "demo_loads s = (case map_of demo_table s of Some v \<Rightarrow> Inr v | None \<Rightarrow> Inl decode_error)"

definition demo_env :: env where
  "demo_env = \<lparr>GEMINI_API_KEY = ''secret'', EVAL_PROMPT = ''You receive a 30 second video'',
               loads = demo_loads\<rparr>"

definition demo_upload :: file_storage where
  "demo_upload = \<lparr>content = [0x4D, 0x61], mimetype = ''video/webm''\<rparr>"

definition untyped_upload :: file_storage where
  "untyped_upload = \<lparr>content = [0x4D, 0x61], mimetype = []\<rparr>"

definition empty_upload :: file_storage where
  "empty_upload = \<lparr>content = [], mimetype = ''video/quicktime''\<rparr>"

definition demo_request :: flask_request where
  "demo_request = \<lparr>files = [(''video'', demo_upload)]\<rparr>"

definition unparsed_request :: raw_request where
  "unparsed_request =
     \<lparr>request_files = Inl (HTTPException ''413 Request Entity Too Large'')\<rparr>"

definition unread_request :: raw_request where
  "unread_request =
     \<lparr>request_files = Inr [(''video'',
        \<lparr>stream = Inl (OSError ''I/O operation failed''), declared_mimetype = ''video/webm''\<rparr>)]\<rparr>"

definition teapot :: response where
  "teapot = \<lparr>status_code = 418, resp_text = ''short and stout''\<rparr>"

definition demo_post :: http_request where
  "demo_post = build_request demo_env [0x4D, 0x61] ''video/webm''"

definition busy :: response where
  "busy = \<lparr>status_code = 503, resp_text = ''The model is busy''\<rparr>"

definition not_found :: response where
  "not_found = \<lparr>status_code = 404, resp_text = replicate 400 (CHR ''a'')\<rparr>"

definition ok_with :: "string \<Rightarrow> response" where
  "ok_with s = \<lparr>status_code = 200, resp_text = s\<rparr>"

definition up_always :: "outcome \<Rightarrow> upstream" where
  "up_always x n = x"

definition up_503_then :: "response \<Rightarrow> upstream" where
  "up_503_then r n = (if n < 1 then Response busy else Response r)"

definition up_503_503_then :: "response \<Rightarrow> upstream" where
  "up_503_503_then r n = (if n < 2 then Response busy else Response r)"

lemmas demo_simps =
  demo_request_def demo_upload_def untyped_upload_def empty_upload_def demo_env_def
  demo_loads_def demo_table_def decode_error_def demo_answer_def demo_answer_text_def
  demo_envelope_text_def empty_candidates_text_def array_envelope_text_def
  prose_envelope_text_def null_envelope_text_def envelope_of_def demo_post_def busy_def ok_with_def not_found_def
  up_503_503_then_def up_503_then_def up_always_def answer_path_def teapot_def
  unparsed_request_def unread_request_def
  mimetype_or_default_def retried_until_def retried_def max_retries_def Let_def

section \<open>Properties\<close>

subsection \<open>The log\<close>

lemma n_posts_append [simp]: "n_posts (w @ v) = n_posts w + n_posts v"
  by (simp add: n_posts_def)

lemma n_posts_simps [simp]:
  "n_posts [] = 0"
  "n_posts (Post r # w) = Suc (n_posts w)"
  "n_posts (Sleep n # w) = n_posts w"
  by (simp_all add: n_posts_def)

lemma n_posts_retried [simp]: "n_posts (retried k req) = k"
  by (induction k) (simp_all add: retried_def)

lemma posted_append [simp]: "posted (w @ v) = posted w @ posted v"
  by (induction w rule: posted.induct) simp_all

lemma retried_simps:
  "retried 0 req = []"
  "retried 1 req = [Post req, Sleep 5]"
  "retried 2 req = [Post req, Sleep 5] @ [Post req, Sleep 5]"
  by (simp_all add: retried_def numeral_2_eq_2)

lemma retried_2: "retried 2 req = [Post req, Sleep 5, Post req, Sleep 5]"
  by (simp add: retried_def numeral_2_eq_2)

subsection \<open>Decimal numerals\<close>

text \<open>
  \<open>str_int\<close> writes an integer so that it reads back as itself; for a number that
  is not negative it writes digits only, without a leading zero.
\<close>

lemma digit_char_cases:
  assumes "d < 10"
  shows "is_digit (digit_char d) \<and> digit_of (digit_char d) = d"
proof -
  from assms have "d \<in> {0, 1, 2, 3, 4, 5, 6, 7, 8, 9}" by auto
  then show ?thesis
    by (auto simp: is_digit_def digit_of_def)
qed

lemma read_nat_snoc: "read_nat (s @ [c]) = 10 * read_nat s + digit_of c"
  by (simp add: read_nat_def)

lemma read_nat_str_nat: "read_nat (str_nat n) = n"
proof (induction n rule: str_nat.induct)
  case (1 n)
  show ?case
  proof (cases "n < 10")
    case True
    then show ?thesis
      using digit_char_cases [of n]
      by (subst str_nat.simps) (simp add: read_nat_def del: digit_char.simps)
  next
    case False
    have "n mod 10 < 10" by simp
    with False 1 show ?thesis
      using digit_char_cases [of "n mod 10"]
      by (subst str_nat.simps) (simp add: read_nat_snoc del: digit_char.simps)
  qed
qed

lemma str_nat_digits: "list_all is_digit (str_nat n)"
proof (induction n rule: str_nat.induct)
  case (1 n)
  show ?case
  proof (cases "n < 10")
    case True
    then show ?thesis
      using digit_char_cases [of n]
      by (subst str_nat.simps) (simp del: digit_char.simps)
  next
    case False
    have "n mod 10 < 10" by simp
    with False 1 show ?thesis
      using digit_char_cases [of "n mod 10"]
      by (subst str_nat.simps) (simp del: digit_char.simps)
  qed
qed

lemma str_nat_not_Nil: "str_nat n \<noteq> []"
  by (subst str_nat.simps) simp

lemma str_nat_no_leading_zero: "n \<noteq> 0 \<Longrightarrow> hd (str_nat n) \<noteq> CHR ''0''"
proof (induction n rule: str_nat.induct)
  case (1 n)
  show ?case
  proof (cases "n < 10")
    case True
    with 1 have "n \<in> {1, 2, 3, 4, 5, 6, 7, 8, 9}" by auto
    then show ?thesis
      by (subst str_nat.simps) auto
  next
    case False
    then have "n div 10 \<noteq> 0" by simp
    with False 1 have "hd (str_nat (n div 10)) \<noteq> CHR ''0''" by simp
    with False show ?thesis
      by (subst str_nat.simps) (simp add: str_nat_not_Nil)
  qed
qed

lemma read_int_str_int: "read_int (str_int i) = i"
proof (cases "i < 0")
  case True
  then show ?thesis
    by (simp add: str_int_def read_int_def read_nat_str_nat)
next
  case False
  obtain c cs where s: "str_nat (nat i) = c # cs"
    using str_nat_not_Nil [of "nat i"] by (cases "str_nat (nat i)") auto
  with str_nat_digits [of "nat i"] have "is_digit c" by simp
  then have "c \<noteq> CHR ''-''" by (auto simp: is_digit_def)
  with False s read_nat_str_nat [of "nat i"] show ?thesis
    by (simp add: str_int_def read_int_def)
qed

lemma str_int_canonical:
  "0 \<le> i \<Longrightarrow> list_all is_digit (str_int i) \<and> (i \<noteq> 0 \<longrightarrow> hd (str_int i) \<noteq> CHR ''0'')"
  using str_nat_digits [of "nat i"] str_nat_no_leading_zero [of "nat i"]
  by (simp add: str_int_def)

subsection \<open>One iteration of the retry loop\<close>

lemma ranges:
  "[0..<max_retries] = [0, 1, 2]"
  "[1..<max_retries] = [1, 2]"
  "[2..<max_retries] = [2]"
  by (simp_all add: max_retries_def upt_rec)

lemma bounds:
  "(0::nat) < max_retries - 1"
  "(1::nat) < max_retries - 1"
  "\<not> (2::nat) < max_retries - 1"
  by (simp_all add: max_retries_def)

lemma str_int_503: "str_int 503 = ''503''"
  by (simp add: str_int_def str_nat.simps)

lemma retry_step:
  assumes "retry_trigger (up (n_posts w))" and "attempt < max_retries - 1"
  shows "\<exists>resp'. retry_loop up req (attempt # rest) resp w =
           retry_loop up req rest resp' (w @ [Post req, Sleep 5])"
  using assms
  by (cases "up (n_posts w)") (auto simp: requests_post_def time_sleep_def)

lemma last_step_200:
  assumes "up (n_posts w) = Response r" and "status_code r = 200"
  shows "retry_loop up req (attempt # rest) resp w = (Inr (Break, Some r), w @ [Post req])"
  using assms by (simp add: requests_post_def)

lemma last_step_other:
  assumes "up (n_posts w) = Response r" and "status_code r \<noteq> 200"
    and "status_code r \<noteq> 503"
  shows "retry_loop up req (attempt # rest) resp w =
           (Inl (RuntimeError (''Gemini API error '' @ str_int (status_code r) @ '': '' @
                   take 300 (resp_text r))), w @ [Post req])"
  using assms by (simp add: requests_post_def)

lemma last_step_503:
  assumes "up (n_posts w) = Response r" and "status_code r = 503"
    and "\<not> attempt < max_retries - 1"
  shows "retry_loop up req (attempt # rest) resp w =
           (Inl (RuntimeError (''Gemini API error '' @ str_int 503 @ '': '' @
                   take 300 (resp_text r))), w @ [Post req])"
  using assms by (simp add: requests_post_def)

subsection \<open>The loop as a whole\<close>

lemma retry_prefix1:
  assumes "retry_trigger (up (n_posts w))"
  shows "\<exists>resp'. retry_loop up req [0, 1, 2] None w =
           retry_loop up req [1, 2] resp' (w @ [Post req, Sleep 5])"
  using assms bounds(1) by (rule retry_step)

lemma retry_prefix2:
  assumes "retry_trigger (up (n_posts w))" and "retry_trigger (up (n_posts w + 1))"
  shows "\<exists>resp'. retry_loop up req [0, 1, 2] None w =
           retry_loop up req [2] resp' (w @ [Post req, Sleep 5] @ [Post req, Sleep 5])"
proof -
  from assms(1) have "\<exists>resp'. retry_loop up req [0, 1, 2] None w =
      retry_loop up req [1, 2] resp' (w @ [Post req, Sleep 5])"
    by (rule retry_prefix1)
  then obtain r1 where s1: "retry_loop up req [0, 1, 2] None w =
      retry_loop up req [1, 2] r1 (w @ [Post req, Sleep 5])" by blast
  have "retry_trigger (up (n_posts (w @ [Post req, Sleep 5])))"
    using assms(2) by simp
  from this bounds(2) have "\<exists>resp'. retry_loop up req [1, 2] r1 (w @ [Post req, Sleep 5]) =
      retry_loop up req [2] resp' ((w @ [Post req, Sleep 5]) @ [Post req, Sleep 5])"
    by (rule retry_step)
  then obtain r2 where "retry_loop up req [1, 2] r1 (w @ [Post req, Sleep 5]) =
      retry_loop up req [2] r2 (w @ [Post req, Sleep 5] @ [Post req, Sleep 5])"
    by (auto simp del: retry_loop.simps)
  with s1 show ?thesis by (auto simp del: retry_loop.simps)
qed

lemma retry_prefix:
  assumes "k < max_retries"
    and "list_all (\<lambda>i. retry_trigger (up (n_posts w + i))) [0..<k]"
  shows "\<exists>resp'. retry_loop up req [0..<max_retries] None w =
           retry_loop up req [k..<max_retries] resp' (w @ retried k req)"
proof -
  from assms(1) have "k = 0 \<or> k = 1 \<or> k = 2"
    unfolding max_retries_def by arith
  then consider "k = 0" | "k = 1" | "k = 2"
    by blast
  then show ?thesis
  proof cases
    case 1
    then show ?thesis by (auto simp: retried_simps simp del: retry_loop.simps)
  next
    case 2
    with assms(2) have t: "retry_trigger (up (n_posts w))" by simp
    show ?thesis unfolding 2 ranges retried_simps using t by (rule retry_prefix1)
  next
    case 3
    with assms(2) have t0: "retry_trigger (up (n_posts w))"
      and t1: "retry_trigger (up (n_posts w + 1))"
      by (simp_all add: upt_rec)
    show ?thesis unfolding 3 ranges retried_simps using t0 t1 by (rule retry_prefix2)
  qed
qed

lemma retried_until_2:
  "retried_until up w 2 \<longleftrightarrow>
     retry_trigger (up (n_posts w)) \<and> retry_trigger (up (n_posts w + 1))"
  by (auto simp: retried_until_def max_retries_def upt_rec numeral_2_eq_2)

lemma loop_reaches:
  assumes "retried_until up w k"
  shows "\<exists>resp'. retry_loop up req [0..<max_retries] None w =
           retry_loop up req (k # [Suc k..<max_retries]) resp' (w @ retried k req)"
proof -
  from assms have k: "k < max_retries"
    and t: "list_all (\<lambda>i. retry_trigger (up (n_posts w + i))) [0..<k]"
    by (simp_all add: retried_until_def)
  from k have "[k..<max_retries] = k # [Suc k..<max_retries]"
    by (rule upt_conv_Cons)
  with retry_prefix [OF k t, of req] show ?thesis
    by (simp del: retry_loop.simps)
qed

lemma loop_success:
  assumes "retried_until up w k" and "up (n_posts w + k) = Response r"
    and "status_code r = 200"
  shows "retry_loop up req [0..<max_retries] None w =
           (Inr (Break, Some r), w @ retried k req @ [Post req])"
proof -
  from loop_reaches [OF assms(1), of req]
  obtain resp' where s: "retry_loop up req [0..<max_retries] None w =
     retry_loop up req (k # [Suc k..<max_retries]) resp' (w @ retried k req)" by blast
  have "up (n_posts (w @ retried k req)) = Response r"
    using assms(2) by simp
  from this assms(3)
  have "retry_loop up req (k # [Suc k..<max_retries]) resp' (w @ retried k req) =
          (Inr (Break, Some r), (w @ retried k req) @ [Post req])"
    by (rule last_step_200)
  with s show ?thesis
    by (simp del: retry_loop.simps)
qed

lemma loop_other:
  assumes "retried_until up w k" and "up (n_posts w + k) = Response r"
    and "status_code r \<noteq> 200" and "status_code r \<noteq> 503"
  shows "retry_loop up req [0..<max_retries] None w =
           (Inl (RuntimeError (''Gemini API error '' @ str_int (status_code r) @ '': '' @
                   take 300 (resp_text r))), w @ retried k req @ [Post req])"
proof -
  from loop_reaches [OF assms(1), of req]
  obtain resp' where s: "retry_loop up req [0..<max_retries] None w =
     retry_loop up req (k # [Suc k..<max_retries]) resp' (w @ retried k req)" by blast
  have "up (n_posts (w @ retried k req)) = Response r"
    using assms(2) by simp
  from this assms(3,4)
  have "retry_loop up req (k # [Suc k..<max_retries]) resp' (w @ retried k req) =
          (Inl (RuntimeError (''Gemini API error '' @ str_int (status_code r) @ '': '' @
                  take 300 (resp_text r))), (w @ retried k req) @ [Post req])"
    by (rule last_step_other)
  with s show ?thesis
    by (simp del: retry_loop.simps)
qed

lemma loop_503_last:
  assumes "retried_until up w 2" and "up (n_posts w + 2) = Response r"
    and "status_code r = 503"
  shows "retry_loop up req [0..<max_retries] None w =
           (Inl (RuntimeError (''Gemini API error '' @ str_int 503 @ '': '' @
                   take 300 (resp_text r))), w @ retried 2 req @ [Post req])"
proof -
  from loop_reaches [OF assms(1), of req]
  obtain resp' where s: "retry_loop up req [0..<max_retries] None w =
     retry_loop up req (2 # [Suc 2..<max_retries]) resp' (w @ retried 2 req)" by blast
  have "up (n_posts (w @ retried 2 req)) = Response r"
    using assms(2) by simp
  from this assms(3) bounds(3)
  have "retry_loop up req (2 # [Suc 2..<max_retries]) resp' (w @ retried 2 req) =
          (Inl (RuntimeError (''Gemini API error '' @ str_int 503 @ '': '' @
                  take 300 (resp_text r))), (w @ retried 2 req) @ [Post req])"
    by (rule last_step_503)
  with s show ?thesis
    by (simp del: retry_loop.simps)
qed

lemma retry_loop_break:
  "retry_loop up req xs resp w = (Inr (Break, r), w') \<Longrightarrow>
     \<exists>x. r = Some x \<and> status_code x = 200"
proof (induction xs arbitrary: resp w)
  case Nil
  then show ?case by simp
next
  case (Cons attempt rest)
  then show ?case
    by (cases "up (n_posts w)") (auto simp: requests_post_def split: if_splits)
qed

lemma retry_loop_exhausted:
  "retry_loop up req xs resp w = (Inr (Exhausted, r), w') \<Longrightarrow>
     xs = [] \<or> last xs < max_retries - 1"
proof (induction xs arbitrary: resp w)
  case Nil
  then show ?case by simp
next
  case (Cons attempt rest)
  then show ?case
    by (cases "up (n_posts w)") (auto simp: requests_post_def split: if_splits)
qed

lemma loop_exit:
  assumes "retry_loop up req [0..<max_retries] None w = (Inr (how, resp), w')"
  shows "how = Break \<and> (\<exists>r. resp = Some r \<and> status_code r = 200)"
proof (cases how)
  case Break
  with assms retry_loop_break show ?thesis by blast
next
  case Exhausted
  with assms have "retry_loop up req [0..<max_retries] None w = (Inr (Exhausted, resp), w')"
    by simp
  then have "[0..<max_retries] = [] \<or> last [0..<max_retries] < max_retries - 1"
    by (rule retry_loop_exhausted)
  then show ?thesis
    unfolding ranges by (simp add: max_retries_def)
qed

lemma retry_loop_log:
  "retry_loop up req xs resp w = (res, w') \<Longrightarrow>
     \<exists>evs. w' = w @ evs \<and> set (posted evs) \<subseteq> {req} \<and> (xs \<noteq> [] \<longrightarrow> posted evs \<noteq> [])"
proof (induction xs arbitrary: resp w)
  case Nil
  then show ?case by simp
next
  case (Cons attempt rest)
  show ?case
  proof (cases "\<exists>resp'. retry_loop up req (attempt # rest) resp w =
                  retry_loop up req rest resp' (w @ [Post req, Sleep 5])")
    case True
    then obtain resp' where
      "retry_loop up req rest resp' (w @ [Post req, Sleep 5]) = (res, w')"
      using Cons.prems by auto
    from Cons.IH [OF this] obtain evs where
      "w' = (w @ [Post req, Sleep 5]) @ evs" "set (posted evs) \<subseteq> {req}" by blast
    then have "w' = w @ ([Post req, Sleep 5] @ evs) \<and>
        set (posted ([Post req, Sleep 5] @ evs)) \<subseteq> {req} \<and>
        posted ([Post req, Sleep 5] @ evs) \<noteq> []"
      by simp
    then show ?thesis by blast
  next
    case False
    with Cons.prems
    have stop: "retry_loop up req rest resp' (w @ [Post req, Sleep 5]) \<noteq> (res, w')"
      for resp'
      by metis
    from Cons.prems have "w' = w @ [Post req]"
      by (cases "up (n_posts w)")
         (auto simp: requests_post_def time_sleep_def stop split: if_splits)
    then have "w' = w @ [Post req] \<and> set (posted [Post req]) \<subseteq> {req} \<and>
        posted [Post req] \<noteq> []"
      by simp
    then show ?thesis by blast
  qed
qed

subsection \<open>The relay and the front door\<close>

lemma relay_reads_response:
  assumes "retried_until up w k" and "up (n_posts w + k) = Response r"
    and "status_code r = 200"
  shows "call_gemini_with_video e up video_bytes mime_type w =
           (read_response e r,
            w @ retried k (build_request e video_bytes mime_type) @
              [Post (build_request e video_bytes mime_type)])"
  using loop_success [OF assms, of "build_request e video_bytes mime_type"]
  by (simp add: call_gemini_with_video_def)

lemma relay_log:
  "snd (call_gemini_with_video e up video_bytes mime_type w) =
     snd (retry_loop up (build_request e video_bytes mime_type) [0..<max_retries] None w)"
  by (simp add: call_gemini_with_video_def split: prod.splits sum.splits option.splits)

lemma front_door_failure:
  assumes "map_of (files request) ''video'' = Some f" and "content f \<noteq> []"
    and "call_gemini_with_video e up (content f) (mimetype_or_default f) w = (Inl x, w')"
  shows "evaluate_pitch e up request w =
           (\<lparr>status = 500, body = JObj [(''error'', JStr ''evaluation_failed''),
                                          (''message'', JStr (str_exn x))]\<rparr>, w')"
  using assms by (simp add: evaluate_pitch_def evaluation_failed_def)

text \<open>
  On a request whose form data and upload can be read, the handler with its
  \<open>except\<close> clause returns what \<open>evaluate_pitch\<close> returns.
\<close>

lemma map_of_readable:
  "map_of (map (\<lambda>(k, f). (k, g f)) fs) k = map_option g (map_of fs k)"
  by (induction fs) auto

lemma handler_on_readable:
  "evaluate_pitch_handler e up (readable request) w =
     (Inr (fst (evaluate_pitch e up request w)), snd (evaluate_pitch e up request w))"
  by (auto simp: evaluate_pitch_handler_def evaluate_pitch_try_def evaluate_pitch_def
      readable_def map_of_readable mimetype_or_default_def Let_def
      split: option.splits prod.splits sum.splits)

subsection \<open>The answer location\<close>







subsection \<open>The media type of the outbound request\<close>

lemma media_tag_build_request:
  "media_tag (build_request e video_bytes mime_type) = Inr (JStr mime_type)"
  by (simp add: media_tag_def build_request_def build_payload_def)

text \<open>
  \<open>call_gemini_with_video\<close> sends at least one request, and every request it sends
  declares for the video exactly the \<open>mime_type\<close> it was called with.
\<close>

lemma relay_tags_as_given:
  "\<exists>evs. snd (call_gemini_with_video e up video_bytes mime_type w) = w @ evs \<and>
         posted evs \<noteq> [] \<and>
         (\<forall>q \<in> set (posted evs). media_tag q = Inr (JStr mime_type))"
proof -
  obtain res w' where run:
    "retry_loop up (build_request e video_bytes mime_type) [0..<max_retries] None w = (res, w')"
    by (cases "retry_loop up (build_request e video_bytes mime_type) [0..<max_retries] None w")
  from retry_loop_log [OF this] obtain evs where
    "w' = w @ evs" "set (posted evs) \<subseteq> {build_request e video_bytes mime_type}"
    "posted evs \<noteq> []"
    by (auto simp: ranges)
  with run show ?thesis
    by (auto simp: relay_log media_tag_build_request)
qed

section \<open>The claims\<close>

subsection \<open>Retries\<close>

text \<open>
  Claim C1. When the first two calls meet a retry trigger (status 503, or a timeout) and the
  third call returns 200 with an envelope whose answer text decodes to an object, the handler
  answers 200 with that object. Exactly three calls are made, and a sleep of 5 seconds
  stands before the second and before the third. The statement holds from every starting
  log and for every environment, so the triggers and the delay are the same in every run.
\<close>

theorem retry_twice_then_success:
  assumes "map_of (files request) ''video'' = Some f" and "content f \<noteq> []"
    and "retry_trigger (up (n_posts w))" and "retry_trigger (up (n_posts w + 1))"
    and "up (n_posts w + 2) = Response r" and "status_code r = 200"
    and "loads e (resp_text r) = Inr data"
    and "subscript_path data answer_path = Inr (JStr t)"
    and "loads e t = Inr (JObj answer)"
  shows "let req = build_request e (content f) (mimetype_or_default f);
             (reply, w') = evaluate_pitch e up request w
         in reply = \<lparr>status = 200, body = JObj answer\<rparr> \<and>
            w' = w @ [Post req, Sleep 5, Post req, Sleep 5, Post req] \<and>
            n_posts w' = n_posts w + 3"
proof -
  define req where "req = build_request e (content f) (mimetype_or_default f)"
  from assms(3,4) have "retried_until up w 2"
    by (simp add: retried_until_2)
  from loop_success [OF this assms(5,6), of req]
  have loop: "retry_loop up req [0..<max_retries] None w =
      (Inr (Break, Some r), w @ [Post req, Sleep 5, Post req, Sleep 5, Post req])"
    by (simp add: retried_2)
  have "read_response e r = Inr (JObj answer)"
    using assms(7,8,9)
    by (simp add: read_response_def resp_json_def parse_answer_def json_loads_def)
  with loop have "call_gemini_with_video e up (content f) (mimetype_or_default f) w =
      (Inr (JObj answer), w @ [Post req, Sleep 5, Post req, Sleep 5, Post req])"
    by (simp add: call_gemini_with_video_def req_def)
  with assms(1,2) show ?thesis
    by (simp add: evaluate_pitch_def Let_def req_def)
qed

theorem retry_twice_then_success_witness:
  "evaluate_pitch demo_env (up_503_503_then (ok_with demo_envelope_text)) demo_request [] =
     (\<lparr>status = 200, body = demo_answer\<rparr>,
      [Post demo_post, Sleep 5, Post demo_post, Sleep 5, Post demo_post])"
  using retry_twice_then_success [where request = demo_request and f = demo_upload
      and up = "up_503_503_then (ok_with demo_envelope_text)" and w = "[]"
      and r = "ok_with demo_envelope_text" and e = demo_env
      and data = "envelope_of (JStr demo_answer_text)" and t = demo_answer_text
      and answer = "[(''weighted_total'', JInt 80)]"]
  by (simp add: demo_simps prod_eq_iff split_beta)

text \<open>
  Claim C2. When all three calls return 503, the handler makes exactly three calls, with a
  sleep of 5 seconds between them, and answers 500. The body carries the tag
  \<open>evaluation_failed\<close> and the message of the last attempt, which names the status 503
  and quotes the first 300 characters of the last response. No fourth call is made,
  whatever the service would answer to it.
\<close>

theorem always_503_exhausts:
  assumes "map_of (files request) ''video'' = Some f" and "content f \<noteq> []"
    and "up (n_posts w) = Response r0" and "status_code r0 = 503"
    and "up (n_posts w + 1) = Response r1" and "status_code r1 = 503"
    and "up (n_posts w + 2) = Response r2" and "status_code r2 = 503"
  shows "let req = build_request e (content f) (mimetype_or_default f);
             (reply, w') = evaluate_pitch e up request w
         in reply = \<lparr>status = 500, body = JObj
                     [(''error'', JStr ''evaluation_failed''),
                      (''message'', JStr (''Gemini API error 503: '' @
                                          take 300 (resp_text r2)))]\<rparr> \<and>
            w' = w @ [Post req, Sleep 5, Post req, Sleep 5, Post req] \<and>
            n_posts w' = n_posts w + 3"
proof -
  define req where "req = build_request e (content f) (mimetype_or_default f)"
  from assms(3-6) have "retried_until up w 2"
    by (simp add: retried_until_2)
  from loop_503_last [OF this assms(7,8), of req]
  have "retry_loop up req [0..<max_retries] None w =
      (Inl (RuntimeError (''Gemini API error 503: '' @ take 300 (resp_text r2))),
       w @ [Post req, Sleep 5, Post req, Sleep 5, Post req])"
    by (simp add: retried_2 str_int_503)
  then have "call_gemini_with_video e up (content f) (mimetype_or_default f) w =
      (Inl (RuntimeError (''Gemini API error 503: '' @ take 300 (resp_text r2))),
       w @ [Post req, Sleep 5, Post req, Sleep 5, Post req])"
    by (simp add: call_gemini_with_video_def req_def)
  with assms(1,2) show ?thesis
    by (simp add: evaluate_pitch_def evaluation_failed_def Let_def req_def)
qed

theorem always_503_exhausts_witness:
  "evaluate_pitch demo_env (up_always (Response busy)) demo_request [] =
     (\<lparr>status = 500, body = JObj [(''error'', JStr ''evaluation_failed''),
         (''message'', JStr ''Gemini API error 503: The model is busy'')]\<rparr>,
      [Post demo_post, Sleep 5, Post demo_post, Sleep 5, Post demo_post])"
  using always_503_exhausts [where request = demo_request and f = demo_upload
      and up = "up_always (Response busy)" and w = "[]" and e = demo_env
      and ?r0.0 = busy and ?r1.0 = busy and ?r2.0 = busy]
  by (simp add: demo_simps prod_eq_iff split_beta)

text \<open>
  Claim C3. A response whose status is neither 200 nor 503 ends the call at the attempt
  that receives it, on the first attempt as well as after one or two retried ones. The
  error is a \<open>RuntimeError\<close> whose message holds the status code as a decimal
  numeral, which reads back as the status code, and the first 300 characters of the body.
  The log ends with the call that got this response: no sleep and no further call follow.
\<close>

theorem other_status_fails_at_once:
  assumes "retried_until up w k"
    and "up (n_posts w + k) = Response r"
    and "status_code r \<noteq> 200" and "status_code r \<noteq> 503"
  shows "let req = build_request e video_bytes mime_type;
             code = str_int (status_code r);
             snippet = take 300 (resp_text r);
             (result, w') = call_gemini_with_video e up video_bytes mime_type w
         in result = Inl (RuntimeError (''Gemini API error '' @ code @ '': '' @ snippet)) \<and>
            read_int code = status_code r \<and>
            (0 \<le> status_code r \<longrightarrow>
               list_all is_digit code \<and> (status_code r \<noteq> 0 \<longrightarrow> hd code \<noteq> CHR ''0'')) \<and>
            length snippet \<le> 300 \<and>
            w' = w @ retried k req @ [Post req] \<and>
            n_posts w' = n_posts w + k + 1"
  using loop_other [OF assms, of "build_request e video_bytes mime_type"]
    str_int_canonical [of "status_code r"]
  by (simp add: call_gemini_with_video_def Let_def read_int_str_int)

theorem other_status_fails_at_once_witness:
  "call_gemini_with_video demo_env (up_503_then not_found) [0x4D, 0x61] ''video/webm'' [] =
     (Inl (RuntimeError (''Gemini API error 404: '' @ replicate 300 (CHR ''a''))),
      [Post demo_post, Sleep 5, Post demo_post]) \<and>
   call_gemini_with_video demo_env (up_always (Response teapot)) [0x4D, 0x61] ''video/webm'' [] =
     (Inl (RuntimeError ''Gemini API error 418: short and stout''), [Post demo_post]) \<and>
   read_int (str_int 404) = 404 \<and> read_int (str_int 418) = 418"
  using
    other_status_fails_at_once [where up = "up_503_then not_found" and w = "[]"
      and k = 1 and r = not_found and e = demo_env and video_bytes = "[0x4D, 0x61]"
      and mime_type = "''video/webm''"]
    other_status_fails_at_once [where up = "up_always (Response teapot)" and w = "[]"
      and k = 0 and r = teapot and e = demo_env and video_bytes = "[0x4D, 0x61]"
      and mime_type = "''video/webm''"]
  by (simp add: demo_simps prod_eq_iff split_beta str_int_def str_nat.simps)

text \<open>
  Claim C9. The retry loop of \<open>call_gemini_with_video\<close> ends in one of two ways. Either
  it raises, and then the function raises that exception without reaching
  \<open>resp.json()\<close>. Or it ends by \<open>break\<close>, with \<open>resp\<close> bound to a response of
  status 200, which is the response the rest of the function reads. The range is never
  used up, so \<open>resp\<close> is never unbound at that point.
\<close>

theorem loop_exit_is_break_200:
  "case retry_loop up (build_request e video_bytes mime_type) [0..<max_retries] None w of
     (Inl x, w') \<Rightarrow> call_gemini_with_video e up video_bytes mime_type w = (Inl x, w')
   | (Inr (how, resp), w') \<Rightarrow>
       how = Break \<and>
       (\<exists>r. resp = Some r \<and> status_code r = 200 \<and>
            call_gemini_with_video e up video_bytes mime_type w = (read_response e r, w'))"
proof (cases "retry_loop up (build_request e video_bytes mime_type) [0..<max_retries] None w")
  case (Pair res w')
  show ?thesis
  proof (cases res)
    case (Inl x)
    with Pair show ?thesis by (simp add: call_gemini_with_video_def)
  next
    case (Inr p)
    obtain how resp where p: "p = (how, resp)" by (cases p)
    from Pair Inr p loop_exit
    have "how = Break \<and> (\<exists>r. resp = Some r \<and> status_code r = 200)" by blast
    with Pair Inr p show ?thesis by (auto simp: call_gemini_with_video_def)
  qed
qed

theorem loop_exit_is_break_200_witness:
  "call_gemini_with_video demo_env (up_always (Response (ok_with demo_envelope_text)))
       [0x4D, 0x61] ''video/webm'' [] =
     (read_response demo_env (ok_with demo_envelope_text), [Post demo_post]) \<and>
   call_gemini_with_video demo_env (up_always Timeout) [0x4D, 0x61] ''video/webm'' [] =
     (Inl (RuntimeError ''Gemini API request timed out after retries''),
      [Post demo_post, Sleep 5, Post demo_post, Sleep 5, Post demo_post])"
  using
    loop_exit_is_break_200 [where up = "up_always (Response (ok_with demo_envelope_text))"
      and e = demo_env and video_bytes = "[0x4D, 0x61]" and mime_type = "''video/webm''"
      and w = "[]"]
    loop_exit_is_break_200 [where up = "up_always Timeout"
      and e = demo_env and video_bytes = "[0x4D, 0x61]" and mime_type = "''video/webm''"
      and w = "[]"]
  unfolding ranges
  by (simp add: requests_post_def time_sleep_def up_always_def ok_with_def demo_post_def
      max_retries_def)

subsection \<open>Reading the response\<close>




text \<open>
  Claim C5. Take a 200 response whose envelope holds a string at the answer location. If
  the string does not decode as JSON, the call raises a \<open>RuntimeError\<close> saying that
  Gemini did not return valid JSON, with the decoder's message. If it decodes to a value
  that is not an object, the call raises \<open>Gemini JSON root must be an object\<close>. If it
  decodes to an object, the call returns that object as it is, whatever its members are.
\<close>

theorem answer_text_three_cases:
  assumes "retried_until up w k" and "up (n_posts w + k) = Response r"
    and "status_code r = 200"
    and "loads e (resp_text r) = Inr data"
    and "subscript_path data answer_path = Inr (JStr t)"
  shows "let result = fst (call_gemini_with_video e up video_bytes mime_type w) in
         (\<forall>m. loads e t = Inl m \<longrightarrow>
            result = Inl (RuntimeError (''Gemini did not return valid JSON: '' @ m))) \<and>
         (\<forall>v. loads e t = Inr v \<and> \<not> isinstance_dict v \<longrightarrow>
            result = Inl (RuntimeError ''Gemini JSON root must be an object'')) \<and>
         (\<forall>kvs. loads e t = Inr (JObj kvs) \<longrightarrow> result = Inr (JObj kvs))"
proof -
  from assms(4,5) have "read_response e r = parse_answer e (JStr t)"
    by (simp add: read_response_def resp_json_def)
  with relay_reads_response [OF assms(1,2,3), of e video_bytes mime_type]
  have "fst (call_gemini_with_video e up video_bytes mime_type w) = parse_answer e (JStr t)"
    by simp
  then show ?thesis
    by (auto simp: parse_answer_def json_loads_def Let_def)
qed

theorem answer_text_three_cases_witness:
  "fst (call_gemini_with_video demo_env (up_always (Response (ok_with demo_envelope_text)))
          [0x4D, 0x61] ''video/webm'' []) = Inr demo_answer \<and>
   fst (call_gemini_with_video demo_env (up_always (Response (ok_with array_envelope_text)))
          [0x4D, 0x61] ''video/webm'' []) =
     Inl (RuntimeError ''Gemini JSON root must be an object'') \<and>
   fst (call_gemini_with_video demo_env (up_always (Response (ok_with prose_envelope_text)))
          [0x4D, 0x61] ''video/webm'' []) =
     Inl (RuntimeError (''Gemini did not return valid JSON: '' @ decode_error))"
  using
    answer_text_three_cases [where up = "up_always (Response (ok_with demo_envelope_text))"
      and w = "[]" and k = 0 and r = "ok_with demo_envelope_text" and e = demo_env
      and data = "envelope_of (JStr demo_answer_text)" and t = demo_answer_text
      and video_bytes = "[0x4D, 0x61]" and mime_type = "''video/webm''"]
    answer_text_three_cases [where up = "up_always (Response (ok_with array_envelope_text))"
      and w = "[]" and k = 0 and r = "ok_with array_envelope_text" and e = demo_env
      and data = "envelope_of (JStr ''[1, 2]'')" and t = "''[1, 2]''"
      and video_bytes = "[0x4D, 0x61]" and mime_type = "''video/webm''"]
    answer_text_three_cases [where up = "up_always (Response (ok_with prose_envelope_text))"
      and w = "[]" and k = 0 and r = "ok_with prose_envelope_text" and e = demo_env
      and data = "envelope_of (JStr ''well done'')" and t = "''well done''"
      and video_bytes = "[0x4D, 0x61]" and mime_type = "''video/webm''"]
  by (simp add: demo_simps)

text \<open>
  Claim C10. Take a 200 response whose body does not decode as JSON. Then \<open>resp.json()\<close>
  raises the decoder's \<open>JSONDecodeError\<close> outside both \<open>try\<close> blocks, so it leaves
  \<open>call_gemini_with_video\<close> as it is and not as a \<open>RuntimeError\<close>. The handler still
  answers 500 with the tag \<open>evaluation_failed\<close> and the decoder's message.
\<close>

theorem undecodable_body_is_unwrapped:
  assumes "map_of (files request) ''video'' = Some f" and "content f \<noteq> []"
    and "retried_until up w k" and "up (n_posts w + k) = Response r"
    and "status_code r = 200"
    and "loads e (resp_text r) = Inl m"
  shows "let req = build_request e (content f) (mimetype_or_default f);
             w' = w @ retried k req @ [Post req]
         in call_gemini_with_video e up (content f) (mimetype_or_default f) w =
              (Inl (JSONDecodeError m), w') \<and>
            evaluate_pitch e up request w =
              (\<lparr>status = 500, body = JObj [(''error'', JStr ''evaluation_failed''),
                                             (''message'', JStr m)]\<rparr>, w')"
proof -
  define req where "req = build_request e (content f) (mimetype_or_default f)"
  from assms(6) have "read_response e r = Inl (JSONDecodeError m)"
    by (simp add: read_response_def resp_json_def)
  with relay_reads_response [OF assms(3,4,5), of e "content f" "mimetype_or_default f"]
  have relay:
    "call_gemini_with_video e up (content f) (mimetype_or_default f) w =
       (Inl (JSONDecodeError m), w @ retried k req @ [Post req])"
    by (simp add: req_def)
  from front_door_failure [OF assms(1,2) relay] relay show ?thesis
    unfolding Let_def req_def [symmetric] by simp
qed

theorem undecodable_body_is_unwrapped_witness:
  "loads demo_env ''<html>'' = Inl decode_error \<and>
   call_gemini_with_video demo_env (up_always (Response (ok_with ''<html>'')))
      [0x4D, 0x61] ''video/webm'' [] = (Inl (JSONDecodeError decode_error), [Post demo_post]) \<and>
   evaluate_pitch demo_env (up_always (Response (ok_with ''<html>''))) demo_request [] =
     (\<lparr>status = 500, body = JObj [(''error'', JStr ''evaluation_failed''),
                                    (''message'', JStr decode_error)]\<rparr>, [Post demo_post])"
  using undecodable_body_is_unwrapped [where request = demo_request
      and f = demo_upload and up = "up_always (Response (ok_with ''<html>''))"
      and w = "[]" and k = 0 and r = "ok_with ''<html>''" and e = demo_env
      and m = decode_error]
  by (simp add: demo_simps)

subsection \<open>The handler\<close>

text \<open>
  Claim C6. A request without a file field named \<open>video\<close> is answered 400 with the
  body \<open>{"error": "missing 'video' file field"}\<close>. A request whose \<open>video\<close> field
  holds no bytes is answered 400 with the body \<open>{"error": "empty video payload"}\<close>,
  whatever media type the upload declares. In both cases the log is unchanged: no
  outbound call is made.
\<close>

theorem bad_upload_is_400:
  "(map_of (files request) ''video'' = None \<longrightarrow>
      evaluate_pitch e up request w =
        (\<lparr>status = 400, body = JObj [(''error'', JStr ''missing 'video' file field'')]\<rparr>, w)) \<and>
   (\<forall>f. map_of (files request) ''video'' = Some f \<and> content f = [] \<longrightarrow>
      evaluate_pitch e up request w =
        (\<lparr>status = 400, body = JObj [(''error'', JStr ''empty video payload'')]\<rparr>, w))"
  by (simp add: evaluate_pitch_def)

theorem bad_upload_is_400_witness:
  "evaluate_pitch demo_env (up_always Timeout) \<lparr>files = []\<rparr> [] =
     (\<lparr>status = 400, body = JObj [(''error'', JStr ''missing 'video' file field'')]\<rparr>, []) \<and>
   evaluate_pitch demo_env (up_always Timeout) \<lparr>files = [(''video'', empty_upload)]\<rparr> [] =
     (\<lparr>status = 400, body = JObj [(''error'', JStr ''empty video payload'')]\<rparr>, [])"
  using
    bad_upload_is_400 [where request = "\<lparr>files = []\<rparr>" and e = demo_env
      and up = "up_always Timeout" and w = "[]"]
    bad_upload_is_400 [where request = "\<lparr>files = [(''video'', empty_upload)]\<rparr>"
      and e = demo_env and up = "up_always Timeout" and w = "[]"]
  by (simp add: empty_upload_def)

text \<open>
  Claim C7. The handler with its \<open>except Exception\<close> clause always returns a response,
  and its status is 200, 400 or 500. An exception raised while the form data is parsed,
  while the upload is read, or by \<open>call_gemini_with_video\<close> is answered 500 with the
  tag \<open>evaluation_failed\<close> and the text of the exception. When
  \<open>call_gemini_with_video\<close> returns an object, the answer is 200 with this object as
  the body.
\<close>

theorem every_exception_becomes_500:
  "(\<exists>reply. fst (evaluate_pitch_handler e up request w) = Inr reply \<and>
            status reply \<in> {200, 400, 500}) \<and>
   (\<forall>x. request_files request = Inl x \<longrightarrow>
      evaluate_pitch_handler e up request w =
        (Inr \<lparr>status = 500, body = JObj [(''error'', JStr ''evaluation_failed''),
                                          (''message'', JStr (str_exn x))]\<rparr>, w)) \<and>
   (\<forall>fs f x. request_files request = Inr fs \<and> map_of fs ''video'' = Some f \<and>
        stream f = Inl x \<longrightarrow>
      evaluate_pitch_handler e up request w =
        (Inr \<lparr>status = 500, body = JObj [(''error'', JStr ''evaluation_failed''),
                                          (''message'', JStr (str_exn x))]\<rparr>, w)) \<and>
   (\<forall>fs f bs. request_files request = Inr fs \<and> map_of fs ''video'' = Some f \<and>
        stream f = Inr bs \<and> bs \<noteq> [] \<longrightarrow>
      (case call_gemini_with_video e up bs
              (if declared_mimetype f = [] then ''video/mp4'' else declared_mimetype f) w of
         (Inr result, w') \<Rightarrow>
           evaluate_pitch_handler e up request w = (Inr \<lparr>status = 200, body = result\<rparr>, w')
       | (Inl x, w') \<Rightarrow>
           evaluate_pitch_handler e up request w =
             (Inr \<lparr>status = 500, body = JObj [(''error'', JStr ''evaluation_failed''),
                                               (''message'', JStr (str_exn x))]\<rparr>, w')))"
proof (intro conjI allI impI)
  show "\<exists>reply. fst (evaluate_pitch_handler e up request w) = Inr reply \<and>
            status reply \<in> {200, 400, 500}"
    by (auto simp: evaluate_pitch_handler_def evaluate_pitch_try_def evaluation_failed_def
        Let_def split: option.splits prod.splits sum.splits)
qed (auto simp: evaluate_pitch_handler_def evaluate_pitch_try_def evaluation_failed_def
      Let_def split: prod.splits sum.splits)

theorem every_exception_becomes_500_witness:
  "evaluate_pitch_handler demo_env (up_always Timeout) unparsed_request [] =
     (Inr \<lparr>status = 500, body = JObj
         [(''error'', JStr ''evaluation_failed''),
          (''message'', JStr ''413 Request Entity Too Large'')]\<rparr>, []) \<and>
   evaluate_pitch_handler demo_env (up_always Timeout) unread_request [] =
     (Inr \<lparr>status = 500, body = JObj
         [(''error'', JStr ''evaluation_failed''),
          (''message'', JStr ''I/O operation failed'')]\<rparr>, []) \<and>
   evaluate_pitch_handler demo_env (up_always (Response (ok_with demo_envelope_text)))
       (readable demo_request) [] =
     (Inr \<lparr>status = 200, body = demo_answer\<rparr>, [Post demo_post]) \<and>
   evaluate_pitch_handler demo_env (up_always Timeout) (readable demo_request) [] =
     (Inr \<lparr>status = 500, body = JObj
         [(''error'', JStr ''evaluation_failed''),
          (''message'', JStr ''Gemini API request timed out after retries'')]\<rparr>,
      [Post demo_post, Sleep 5, Post demo_post, Sleep 5, Post demo_post])"
  using
    every_exception_becomes_500 [where e = demo_env and up = "up_always Timeout"
      and request = unparsed_request and w = "[]"]
    every_exception_becomes_500 [where e = demo_env and up = "up_always Timeout"
      and request = unread_request and w = "[]"]
    every_exception_becomes_500 [where e = demo_env
      and up = "up_always (Response (ok_with demo_envelope_text))"
      and request = "readable demo_request" and w = "[]"]
    every_exception_becomes_500 [where e = demo_env and up = "up_always Timeout"
      and request = "readable demo_request" and w = "[]"]
  unfolding call_gemini_with_video_def ranges
  by (simp add: demo_simps readable_def requests_post_def time_sleep_def
      read_response_def resp_json_def parse_answer_def json_loads_def)

text \<open>
  Claim C8. When the upload is not empty and declares no media type (its \<open>mimetype\<close>
  is the empty string, which is also what an absent content type gives), the handler calls
  \<open>call_gemini_with_video\<close> with \<open>video/mp4\<close>: at least one request is sent, and
  every request sent declares \<open>video/mp4\<close> for the video.
\<close>

theorem empty_media_type_is_sent_as_mp4:
  assumes "map_of (files request) ''video'' = Some f" and "content f \<noteq> []"
    and "mimetype f = []"
  shows "\<exists>evs. snd (evaluate_pitch e up request w) = w @ evs \<and> posted evs \<noteq> [] \<and>
           (\<forall>q \<in> set (posted evs). media_tag q = Inr (JStr ''video/mp4''))"
proof -
  from assms have "snd (evaluate_pitch e up request w) =
      snd (call_gemini_with_video e up (content f) ''video/mp4'' w)"
    by (simp add: evaluate_pitch_def mimetype_or_default_def split: prod.splits sum.splits)
  with relay_tags_as_given [of e up "content f" "''video/mp4''" w]
  show ?thesis by simp
qed

theorem empty_media_type_is_sent_as_mp4_witness:
  "mimetype untyped_upload = [] \<and>
   snd (evaluate_pitch demo_env (up_always (Response (ok_with demo_envelope_text)))
          \<lparr>files = [(''video'', untyped_upload)]\<rparr> []) =
     [Post (build_request demo_env [0x4D, 0x61] ''video/mp4'')] \<and>
   (\<exists>evs. snd (evaluate_pitch demo_env (up_always (Response (ok_with demo_envelope_text)))
                 \<lparr>files = [(''video'', untyped_upload)]\<rparr> []) = [] @ evs \<and>
          posted evs \<noteq> [] \<and>
          (\<forall>q \<in> set (posted evs). media_tag q = Inr (JStr ''video/mp4'')))"
proof -
  have run: "snd (evaluate_pitch demo_env (up_always (Response (ok_with demo_envelope_text)))
          \<lparr>files = [(''video'', untyped_upload)]\<rparr> []) =
     [Post (build_request demo_env [0x4D, 0x61] ''video/mp4'')]"
    unfolding evaluate_pitch_def call_gemini_with_video_def ranges
    by (simp add: demo_simps requests_post_def split: prod.splits sum.splits)
  have "map_of (files \<lparr>files = [(''video'', untyped_upload)]\<rparr>) ''video'' = Some untyped_upload"
    and "content untyped_upload \<noteq> []" and t: "mimetype untyped_upload = []"
    by (simp_all add: untyped_upload_def)
  from empty_media_type_is_sent_as_mp4 [OF this,
      of demo_env "up_always (Response (ok_with demo_envelope_text))" "[]"] t run
  show ?thesis by blast
qed

end
